theory Spec2Isabelle
  imports Main
begin

section \<open>JavaScript values\<close>

text \<open>
  The handlers of \<^verbatim>\<open>app/api/generate-image/route.ts\<close> receive a JSON request body and
  JSON payloads of the Stability API, both untyped at run time (\<^verbatim>\<open>any\<close>). A JSON value is
  a \<open>json\<close>; a JavaScript value that may also be \<^verbatim>\<open>undefined\<close> is a \<open>json option\<close>,
  with \<open>None\<close> for \<^verbatim>\<open>undefined\<close>. A number is represented by its JavaScript rendering
  (what \<^verbatim>\<open>String(n)\<close> gives: \<open>''0''\<close> for both zeros), which is all the handlers ever
  observe of a number. \<open>JObj\<close> holds the own properties of a parsed object; a lookup returns
  the first binding of the key. Strings are read as ASCII text.
\<close>

datatype json =
    JNull
  | JBool bool
  | JNum string
  | JStr string
  | JArr "json list"
  | JObj "(string \<times> json) list"

type_synonym jsval = "json option"

text \<open>JavaScript truthiness: \<^verbatim>\<open>undefined\<close>, \<^verbatim>\<open>null\<close>, \<^verbatim>\<open>false\<close>, \<^verbatim>\<open>0\<close> and \<^verbatim>\<open>""\<close> are falsy.\<close>

fun truthy :: "jsval \<Rightarrow> bool" where
  "truthy None = False"
| "truthy (Some JNull) = False"
| "truthy (Some (JBool b)) = b"
| "truthy (Some (JNum n)) = (n \<noteq> ''0'')"
| "truthy (Some (JStr s)) = (s \<noteq> [])"
| "truthy (Some (JArr xs)) = True"
| "truthy (Some (JObj kvs)) = True"

text \<open>\<^verbatim>\<open>a || b\<close>\<close>

definition or_else :: "jsval \<Rightarrow> jsval \<Rightarrow> jsval" where
  "or_else a b = (if truthy a then a else b)"

text \<open>
  \<^verbatim>\<open>v.k\<close> for a value \<open>v\<close> that is neither \<^verbatim>\<open>null\<close> nor \<^verbatim>\<open>undefined\<close> and a property
  name \<open>k\<close> that is neither an index nor \<^verbatim>\<open>length\<close> nor a member of a prototype (the
  handlers read \<^verbatim>\<open>prompt\<close>, \<^verbatim>\<open>chatId\<close>, \<^verbatim>\<open>userId\<close>, \<^verbatim>\<open>sharedSecret\<close>, \<^verbatim>\<open>image\<close>,
  \<^verbatim>\<open>artifacts\<close>, \<^verbatim>\<open>base64\<close>, \<^verbatim>\<open>b64_json\<close>, \<^verbatim>\<open>base64_image\<close>): only an object has it.
\<close>

fun get_prop :: "json \<Rightarrow> string \<Rightarrow> jsval" where
  "get_prop (JObj kvs) k = map_of kvs k"
| "get_prop v k = None"

text \<open>\<^verbatim>\<open>v[0]\<close> for such a value: the first element of an array, the first character of a
  string, the property \<^verbatim>\<open>"0"\<close> of an object.\<close>

fun index0 :: "json \<Rightarrow> jsval" where
  "index0 (JArr []) = None"
| "index0 (JArr (x # xs)) = Some x"
| "index0 (JStr []) = None"
| "index0 (JStr (c # cs)) = Some (JStr [c])"
| "index0 (JObj kvs) = map_of kvs ''0''"
| "index0 v = None"

text \<open>Optional chaining: \<^verbatim>\<open>a?.[0]\<close> and \<^verbatim>\<open>a?.k\<close> are \<^verbatim>\<open>undefined\<close> when \<open>a\<close> is
  \<^verbatim>\<open>null\<close> or \<^verbatim>\<open>undefined\<close>.\<close>

fun opt_index0 :: "jsval \<Rightarrow> jsval" where
  "opt_index0 None = None"
| "opt_index0 (Some JNull) = None"
| "opt_index0 (Some v) = index0 v"

fun opt_prop :: "jsval \<Rightarrow> string \<Rightarrow> jsval" where
  "opt_prop None k = None"
| "opt_prop (Some JNull) k = None"
| "opt_prop (Some v) k = get_prop v k"

text \<open>\<^verbatim>\<open>Array.prototype.join\<close> with the default separator.\<close>

fun js_join :: "string list \<Rightarrow> string" where
  "js_join [] = []"
| "js_join [x] = x"
| "js_join (x # y # ys) = x @ '','' @ js_join (y # ys)"

text \<open>The string a template literal \<^verbatim>\<open>`${v}`\<close> inserts for a JSON value.\<close>

fun to_string :: "json \<Rightarrow> string" where
  "to_string JNull = ''null''"
| "to_string (JBool b) = (if b then ''true'' else ''false'')"
| "to_string (JNum n) = n"
| "to_string (JStr s) = s"
| "to_string (JArr xs) = js_join (map (\<lambda>x. if x = JNull then [] else to_string x) xs)"
| "to_string (JObj kvs) = ''[object Object]''"

text \<open>\<^verbatim>\<open>sharedSecret !== process.env.SHARED_SECRET\<close> compares a request value with an
  environment variable (a string, or \<^verbatim>\<open>undefined\<close> when unset) by strict equality.\<close>

fun strict_eq_env :: "jsval \<Rightarrow> string option \<Rightarrow> bool" where
  "strict_eq_env None None = True"
| "strict_eq_env (Some (JStr s)) (Some t) = (s = t)"
| "strict_eq_env v e = False"

section \<open>Strings\<close>

text \<open>The string operations the handlers use, on ASCII text: \<^verbatim>\<open>trim\<close> strips the six
  ASCII white-space characters (tab, line feed, vertical tab, form feed, carriage return,
  space) and \<^verbatim>\<open>toUpperCase\<close> changes the letters \<^verbatim>\<open>a\<close> to \<^verbatim>\<open>z\<close>.\<close>

definition is_ws :: "char \<Rightarrow> bool" where
  "is_ws c = (c \<in> set [CHR 0x09, CHR 0x0A, CHR 0x0B, CHR 0x0C, CHR 0x0D, CHR 0x20])"

text \<open>\<^verbatim>\<open>String.prototype.trim\<close>\<close>

definition trim :: "string \<Rightarrow> string" where
  "trim s = rev (dropWhile is_ws (rev (dropWhile is_ws s)))"

text \<open>The upper-case form of a character: that of an ASCII letter, the character itself
  otherwise.\<close>

definition to_upper :: "char \<Rightarrow> char" where
  "to_upper c =
     (case map_of (zip ''abcdefghijklmnopqrstuvwxyz'' ''ABCDEFGHIJKLMNOPQRSTUVWXYZ'') c of
        None \<Rightarrow> c
      | Some u \<Rightarrow> u)"

text \<open>\<^verbatim>\<open>String.prototype.toUpperCase\<close>\<close>

definition toUpperCase :: "string \<Rightarrow> string" where
  "toUpperCase s = map to_upper s"

text \<open>\<^verbatim>\<open>s.startsWith(p)\<close>\<close>

definition startsWith :: "string \<Rightarrow> string \<Rightarrow> bool" where
  "startsWith s p = (take (length p) s = p)"

text \<open>\<^verbatim>\<open>s.substring(n)\<close>\<close>

definition substring :: "string \<Rightarrow> nat \<Rightarrow> string" where
  "substring s n = drop n s"

text \<open>\<^verbatim>\<open>s.split(',')\<close>: never empty; \<^verbatim>\<open>"a,"\<close> gives \<^verbatim>\<open>["a", ""]\<close>.\<close>

fun split_comma :: "string \<Rightarrow> string list" where
  "split_comma [] = [[]]"
| "split_comma (c # cs) =
     (if c = CHR '','' then [] # split_comma cs
      else (case split_comma cs of
              [] \<Rightarrow> [[c]]
            | w # ws \<Rightarrow> (c # w) # ws))"

text \<open>The decimal digit of a number below ten.\<close>

definition digit :: "nat \<Rightarrow> char" where
  "digit d = ''0123456789'' ! d"

text \<open>The decimal rendering of a non-negative integer, as a template literal inserts
  \<^verbatim>\<open>Date.now()\<close>.\<close>

fun show_nat :: "nat \<Rightarrow> string" where
  "show_nat n = (if n < 10 then [digit n] else show_nat (n div 10) @ [digit (n mod 10)])"

declare show_nat.simps [simp del]

text \<open>Reading a decimal rendering back.\<close>

definition digit_val :: "char \<Rightarrow> nat" where
  "digit_val c =
     (case map_of (zip ''0123456789'' [0, 1, 2, 3, 4, 5, 6, 7, 8, 9]) c of
        None \<Rightarrow> 0
      | Some d \<Rightarrow> d)"

definition read_nat :: "string \<Rightarrow> nat" where
  "read_nat s = foldl (\<lambda>a c. 10 * a + digit_val c) 0 s"

section \<open>The collaborators\<close>

text \<open>
  A thrown error as the outer \<^verbatim>\<open>catch\<close> reads it: \<^verbatim>\<open>error.message\<close>, what
  \<^verbatim>\<open>error.response?.text\<close> is (absent, a function that returns a text, or one that throws,
  as the \<^verbatim>\<open>text()\<close> of a blocked Gemini response does), and \<^verbatim>\<open>JSON.stringify(error)\<close>.
\<close>

datatype response_text = NoResponseText | ResponseText string | ResponseTextThrows

record js_error =
  err_message :: string
  err_response_text :: response_text
  err_json :: string

text \<open>A built-in error (\<^verbatim>\<open>SyntaxError\<close>, \<^verbatim>\<open>TypeError\<close>): no \<^verbatim>\<open>response\<close>, no
  enumerable property.\<close>

definition builtin_error :: "string \<Rightarrow> js_error" where
  "builtin_error msg =
     \<lparr>err_message = msg, err_response_text = NoResponseText, err_json = ''{}''\<rparr>"

text \<open>\<^verbatim>\<open>moderationModel.generateContent\<close> followed by \<^verbatim>\<open>response.text()\<close>: either of them
  throws, or the text and \<^verbatim>\<open>response.promptFeedback\<close> are available.\<close>

datatype moderation_outcome = ModerationThrows js_error | ModerationResult string jsval

text \<open>The response of the image model, with the fields of the SDK's declared types that the
  handlers read.\<close>

record blob =
  blob_mimeType :: string
  blob_data :: string

record part =
  part_text :: "string option"
  part_inlineData :: "blob option"

record candidate =
  content_parts :: "part list"

record gemini_response =
  candidates :: "candidate list option"
  promptFeedback :: jsval

datatype gemini_outcome = GeminiThrows js_error | GeminiResult gemini_response

text \<open>\<^verbatim>\<open>fetch\<close> of the Stability endpoint: it rejects, or resolves to a response with a
  status and a body that \<^verbatim>\<open>res.json()\<close> parses or not.\<close>

datatype fetch_body = NotJson | Json json

record fetch_response =
  res_status :: nat
  res_body :: fetch_body

datatype fetch_outcome = FetchRejects | FetchResolves fetch_response

text \<open>\<^verbatim>\<open>res.ok\<close>\<close>

definition res_ok :: "fetch_response \<Rightarrow> bool" where
  "res_ok res = (200 \<le> res_status res \<and> res_status res \<le> 299)"

text \<open>\<^verbatim>\<open>cloudinary.uploader.upload\<close>: it throws a value whose \<^verbatim>\<open>message\<close> is given, or
  resolves to a result whose \<^verbatim>\<open>secure_url\<close> is given.\<close>

datatype upload_outcome = UploadThrows jsval | UploadResult string

text \<open>
  The environment of one request: the process environment, the outcome of every external
  call as a function of its arguments (for the Stability endpoint also of the position of
  the attempt, so that two attempts with equal keys may differ), the reading of
  \<^verbatim>\<open>Date.now()\<close>, and the engine's message for destructuring \<^verbatim>\<open>null\<close>. The fixed
  moderation instruction, the model names and the request options are constants of the
  source and are left out of the arguments.
\<close>

record env =
  SHARED_SECRET :: "string option"
  STABILITY_KEYS :: "string option"
  STABILITY_KEY :: "string option"
  null_destructure_message :: string
  moderation_generateContent :: "jsval \<Rightarrow> moderation_outcome"
  stability_fetch :: "nat \<Rightarrow> string \<Rightarrow> jsval \<Rightarrow> fetch_outcome"
  image_generateContent :: "jsval \<Rightarrow> gemini_outcome"
  cloudinary_upload :: "string \<Rightarrow> string \<Rightarrow> string \<Rightarrow> upload_outcome"
  Date_now :: nat

text \<open>The external calls a request makes, in order: the moderation call with its prompt, a
  Stability attempt with its key and prompt, the image-model call with its prompt, the upload
  with its payload, folder and \<^verbatim>\<open>public_id\<close>.\<close>

datatype call =
    ModerationCall jsval
  | StabilityCall string jsval
  | GeminiCall jsval
  | UploadCall string string string

section \<open>Requests and responses\<close>

text \<open>\<^verbatim>\<open>await req.json()\<close> throws a \<^verbatim>\<open>SyntaxError\<close> with some message, or gives a value.\<close>

datatype request_body = InvalidJson string | JsonBody json

record request_fields =
  prompt :: jsval
  chatIdFromBody :: jsval
  userId :: jsval
  sharedSecret :: jsval

text \<open>\<^verbatim>\<open>const { prompt, chatId: chatIdFromBody, userId, sharedSecret } = v\<close> for \<open>v\<close> other
  than \<^verbatim>\<open>null\<close>.\<close>

definition destructure :: "json \<Rightarrow> request_fields" where
  "destructure v =
     \<lparr>prompt = get_prop v ''prompt'', chatIdFromBody = get_prop v ''chatId'',
      userId = get_prop v ''userId'', sharedSecret = get_prop v ''sharedSecret''\<rparr>"

text \<open>A value of a response body before serialisation: a JSON value, an object literal of
  the handler, or a part of the image model's response passed through.\<close>

datatype rvalue =
    RJson json
  | RObject "(string \<times> rvalue) list"
  | RGemini gemini_response
  | RCandidates "candidate list"

record response =
  status_code :: nat
  body :: "(string \<times> rvalue) list"

text \<open>What a call of \<open>POST\<close> gives: a response, or a rejected promise when an exception
  leaves the \<^verbatim>\<open>catch\<close> block.\<close>

datatype result = Responded response | Rejected

text \<open>The properties of an object literal that serialisation keeps: \<^verbatim>\<open>JSON.stringify\<close>
  drops those that are \<^verbatim>\<open>undefined\<close>.\<close>

fun json_object :: "(string \<times> rvalue option) list \<Rightarrow> (string \<times> rvalue) list" where
  "json_object [] = []"
| "json_object ((k, None) # kvs) = json_object kvs"
| "json_object ((k, Some v) # kvs) = (k, v) # json_object kvs"

text \<open>\<^verbatim>\<open>NextResponse.json(obj, { status })\<close>; the status is 200 when none is given.\<close>

definition NextResponse_json :: "(string \<times> rvalue option) list \<Rightarrow> nat \<Rightarrow> response" where
  "NextResponse_json obj st = \<lparr>status_code = st, body = json_object obj\<rparr>"

definition str :: "string \<Rightarrow> rvalue option" where
  "str s = Some (RJson (JStr s))"

definition val :: "jsval \<Rightarrow> rvalue option" where
  "val v = map_option RJson v"

section \<open>The handler of \<^verbatim>\<open>src/app/api/generate-image/route.ts\<close>\<close>

text \<open>The outer \<^verbatim>\<open>catch\<close> block (lines 161-173), with the value of \<^verbatim>\<open>requestPrompt\<close> at the
  throw.\<close>

definition catch_block :: "jsval \<Rightarrow> js_error \<Rightarrow> result" where
  "catch_block requestPrompt error =
     (let message = (if err_message error \<noteq> [] then err_message error
                     else ''Internal server error'')
      in case err_response_text error of
           ResponseTextThrows \<Rightarrow> Rejected
         | ResponseText t \<Rightarrow>
             Responded (NextResponse_json
               [(''status'', str ''error''), (''message'', str message),
                (''prompt'', val requestPrompt), (''details'', str t)] 500)
         | NoResponseText \<Rightarrow>
             Responded (NextResponse_json
               [(''status'', str ''error''), (''message'', str message),
                (''prompt'', val requestPrompt), (''details'', str (err_json error))] 500))"

definition unauthorized :: response where
  "unauthorized = NextResponse_json [(''error'', str ''Unauthorized request'')] 401"

text \<open>The upload and the final response (lines 86-149), for the image part found.\<close>

definition upload_and_respond ::
  "env \<Rightarrow> jsval \<Rightarrow> gemini_response \<Rightarrow> blob \<Rightarrow> part option \<Rightarrow> result \<times> call list" where
  "upload_and_respond e p resp inlineData textPart =
     (let imageData = blob_data inlineData;
          mimeType = blob_mimeType inlineData;
          caption = (case textPart of None \<Rightarrow> p | Some t \<Rightarrow> map_option JStr (part_text t));
          base64ImageWithPrefix = ''data:'' @ mimeType @ '';base64,'' @ imageData;
          public_id = ''gemini-gen-'' @ show_nat (Date_now e);
          calls = [UploadCall base64ImageWithPrefix ''gemini-telegram-images'' public_id]
      in case cloudinary_upload e base64ImageWithPrefix ''gemini-telegram-images'' public_id of
           UploadThrows m \<Rightarrow>
             (Responded (NextResponse_json
                [(''status'', str ''error''),
                 (''message'', str ''Failed to upload image to cloud storage''),
                 (''prompt'', val p),
                 (''cloudinaryError'', val m)] 500), calls)
         | UploadResult imageUrl \<Rightarrow>
             if imageUrl = [] then
               (Responded (NextResponse_json
                  [(''status'', str ''error''),
                   (''message'', str ''Image URL not available''),
                   (''prompt'', val p)] 500), calls)
             else
               (Responded (NextResponse_json
                  [(''status'', str ''success''),
                   (''imageUrl'', str imageUrl),
                   (''message'', val caption),
                   (''prompt'', val p),
                   (''generatedImage'', Some (RObject (json_object
                      [(''mimeType'', str mimeType),
                       (''caption'', val caption),
                       (''imageUrl'', str imageUrl)]))),
                   (''geminiResponse'', Some (RObject (json_object
                      [(''candidates'', map_option RCandidates (candidates resp)),
                       (''promptFeedback'', val (promptFeedback resp))])))] 200), calls))"

text \<open>The predicates of the two \<^verbatim>\<open>find\<close> calls (lines 83-84).\<close>

definition is_image_part :: "part \<Rightarrow> bool" where
  "is_image_part q =
     (case part_inlineData q of None \<Rightarrow> False
      | Some b \<Rightarrow> startsWith (blob_mimeType b) ''image/'')"

definition is_text_part :: "part \<Rightarrow> bool" where
  "is_text_part q = (case part_text q of None \<Rightarrow> False | Some t \<Rightarrow> t \<noteq> [])"

text \<open>Image generation (lines 57-159).\<close>

definition generate_image :: "env \<Rightarrow> jsval \<Rightarrow> result \<times> call list" where
  "generate_image e p =
     (case image_generateContent e p of
        GeminiThrows err \<Rightarrow> (catch_block p err, [GeminiCall p])
      | GeminiResult resp \<Rightarrow>
          (let no_candidates =
                 Responded (NextResponse_json
                   [(''status'', str ''error''),
                    (''message'', str ''No image candidates found''),
                    (''prompt'', val p),
                    (''geminiResponse'', Some (RGemini resp))] 500);
               no_image_part =
                 Responded (NextResponse_json
                   [(''status'', str ''error''),
                    (''message'', str ''No image part found in Gemini response''),
                    (''prompt'', val p),
                    (''geminiResponse'', Some (RGemini resp))] 500)
           in case candidates resp of
                None \<Rightarrow> (no_candidates, [GeminiCall p])
              | Some [] \<Rightarrow> (no_candidates, [GeminiCall p])
              | Some (c # cs) \<Rightarrow>
                  (let imagePart = find is_image_part (content_parts c);
                       textPart = find is_text_part (content_parts c)
                   in case imagePart of
                        None \<Rightarrow> (no_image_part, [GeminiCall p])
                      | Some ip \<Rightarrow>
                          (case part_inlineData ip of
                             None \<Rightarrow> (no_image_part, [GeminiCall p])
                           | Some inlineData \<Rightarrow>
                               (let (r, cs') = upload_and_respond e p resp inlineData textPart
                                in (r, GeminiCall p # cs'))))))"

text \<open>Moderation (lines 42-54) and what follows it.\<close>

definition moderate_and_generate :: "env \<Rightarrow> jsval \<Rightarrow> result \<times> call list" where
  "moderate_and_generate e p =
     (case moderation_generateContent e p of
        ModerationThrows err \<Rightarrow> (catch_block p err, [ModerationCall p])
      | ModerationResult text_result feedback \<Rightarrow>
          (let moderationResponseText = trim text_result
           in if startsWith (toUpperCase moderationResponseText) ''UNSAFE'' then
                (let reason = (if trim (substring moderationResponseText 5) \<noteq> []
                               then trim (substring moderationResponseText 5)
                               else ''Content deemed unsafe.'')
                 in (Responded (NextResponse_json
                       [(''status'', str ''moderated''),
                        (''message'', str reason),
                        (''prompt'', val p),
                        (''moderationFeedback'', val feedback)] 200),
                     [ModerationCall p]))
              else
                (let (r, cs) = generate_image e p in (r, ModerationCall p # cs))))"

text \<open>The handler once the body is destructured (lines 32-159).\<close>

definition handle_fields :: "env \<Rightarrow> request_fields \<Rightarrow> result \<times> call list" where
  "handle_fields e f =
     (if \<not> strict_eq_env (sharedSecret f) (SHARED_SECRET e) then (Responded unauthorized, [])
      else moderate_and_generate e (prompt f))"

text \<open>\<open>POST\<close> (lines 26-174): the response and the external calls made. Decoding the body
  and destructuring it happen inside the \<^verbatim>\<open>try\<close>, before \<^verbatim>\<open>requestPrompt\<close> is assigned.\<close>

definition POST :: "env \<Rightarrow> request_body \<Rightarrow> result \<times> call list" where
  "POST e req =
     (case req of
        InvalidJson msg \<Rightarrow> (catch_block (Some (JStr [])) (builtin_error msg), [])
      | JsonBody JNull \<Rightarrow>
          (catch_block (Some (JStr [])) (builtin_error (null_destructure_message e)), [])
      | JsonBody v \<Rightarrow> handle_fields e (destructure v))"

section \<open>The handler with the Stability fallback chain (\<^verbatim>\<open>src/unnamed/part_000\<close>, lines 228-422)\<close>

text \<open>\<^verbatim>\<open>STABILITY_KEYS\<close> (lines 274-275): \<^verbatim>\<open>STABILITY_KEYS ?? STABILITY_KEY\<close>, split at the
  commas, each key trimmed, the empty ones dropped; no key when the variable is unset or
  empty.\<close>

definition stability_keys :: "env \<Rightarrow> string list" where
  "stability_keys e =
     (let STABILITY_KEYS_RAW =
            (case STABILITY_KEYS e of Some s \<Rightarrow> Some s | None \<Rightarrow> STABILITY_KEY e)
      in case STABILITY_KEYS_RAW of
           None \<Rightarrow> []
         | Some s \<Rightarrow> if s = [] then [] else filter (\<lambda>k. k \<noteq> []) (map trim (split_comma s)))"

text \<open>What \<open>generateWithStability\<close> throws: the rejection of \<^verbatim>\<open>fetch\<close>; on a status that is
  not ok, the \<^verbatim>\<open>Error\<close> of line 297 (or the \<^verbatim>\<open>TypeError\<close> of \<^verbatim>\<open>res.text()\<close> on the body
  that \<^verbatim>\<open>res.json()\<close> has consumed); the \<^verbatim>\<open>SyntaxError\<close> of \<^verbatim>\<open>res.json()\<close> on an ok
  response; the \<^verbatim>\<open>TypeError\<close> of \<^verbatim>\<open>data.image\<close> on a \<^verbatim>\<open>null\<close> payload.\<close>

datatype stability_error = FetchFailed | NotOk nat | MalformedPayload | NullPayload

text \<open>Line 303, for a payload other than \<^verbatim>\<open>null\<close>.\<close>

definition extract_base64 :: "json \<Rightarrow> jsval" where
  "extract_base64 d =
     or_else (or_else (or_else (get_prop d ''image'')
        (opt_prop (opt_index0 (get_prop d ''artifacts'')) ''base64''))
        (opt_prop (opt_index0 (get_prop d ''artifacts'')) ''b64_json''))
        (opt_prop (opt_index0 (get_prop d ''artifacts'')) ''base64_image'')"

text \<open>\<open>generateWithStability\<close> (lines 277-305) as attempt number \<open>i\<close>: the thrown error, or
  the pair \<^verbatim>\<open>{ base64, raw }\<close>.\<close>

definition generateWithStability ::
  "env \<Rightarrow> nat \<Rightarrow> jsval \<Rightarrow> string \<Rightarrow> stability_error + (jsval \<times> json)" where
  "generateWithStability e i promptText apiKey =
     (case stability_fetch e i apiKey promptText of
        FetchRejects \<Rightarrow> Inl FetchFailed
      | FetchResolves res \<Rightarrow>
          if \<not> res_ok res then Inl (NotOk (res_status res))
          else (case res_body res of
                  NotJson \<Rightarrow> Inl MalformedPayload
                | Json JNull \<Rightarrow> Inl NullPayload
                | Json d \<Rightarrow> Inr (extract_base64 d, d)))"

text \<open>The loop over the keys (lines 311-329), from attempt \<open>i\<close> on: the value of
  \<^verbatim>\<open>imageBase64\<close> after it, and the attempts made. A call that returns ends the loop
  (\<^verbatim>\<open>break\<close>); a call that throws leaves \<^verbatim>\<open>imageBase64\<close> undefined and goes on.\<close>

fun try_keys :: "env \<Rightarrow> jsval \<Rightarrow> nat \<Rightarrow> string list \<Rightarrow> jsval \<times> call list" where
  "try_keys e p i [] = (None, [])"
| "try_keys e p i (key # keys) =
     (case generateWithStability e i p key of
        Inr stabilityResult \<Rightarrow> (fst stabilityResult, [StabilityCall key p])
      | Inl stErr \<Rightarrow>
          (let (imageBase64, calls) = try_keys e p (Suc i) keys
           in (imageBase64, StabilityCall key p # calls)))"

text \<open>What a template literal inserts for a value.\<close>

definition template :: "jsval \<Rightarrow> string" where
  "template v = (case v of None \<Rightarrow> ''undefined'' | Some j \<Rightarrow> to_string j)"

text \<open>The last check, the upload and the final response (lines 373-407).\<close>

definition upload_generated ::
  "env \<Rightarrow> jsval \<Rightarrow> jsval \<Rightarrow> string \<Rightarrow> jsval \<Rightarrow> result \<times> call list" where
  "upload_generated e p imageBase64 mimeType caption =
     (if \<not> truthy imageBase64 then
        (Responded (NextResponse_json
           [(''status'', str ''error''),
            (''message'', str ''Failed to generate image from any provider''),
            (''prompt'', val p)] 500), [])
      else
        (let base64ImageWithPrefix = ''data:'' @ mimeType @ '';base64,'' @ template imageBase64;
             public_id = ''generated-'' @ show_nat (Date_now e);
             calls = [UploadCall base64ImageWithPrefix ''gemini-telegram-images'' public_id]
         in case cloudinary_upload e base64ImageWithPrefix ''gemini-telegram-images'' public_id of
              UploadThrows m \<Rightarrow>
                (Responded (NextResponse_json
                   [(''status'', str ''error''),
                    (''message'', str ''Failed to upload image to cloud storage''),
                    (''prompt'', val p),
                    (''cloudinaryError'', val m)] 500), calls)
            | UploadResult imageUrl \<Rightarrow>
                (Responded (NextResponse_json
                   [(''status'', str ''success''),
                    (''imageUrl'', str imageUrl),
                    (''message'', val caption),
                    (''prompt'', val p),
                    (''generatedImage'', Some (RObject (json_object
                       [(''mimeType'', str mimeType),
                        (''caption'', val caption),
                        (''imageUrl'', str imageUrl)])))] 200), calls)))"

text \<open>The fallback to the image model (lines 332-371) when the loop left no image, then the
  upload.\<close>

definition gemini_fallback :: "env \<Rightarrow> jsval \<Rightarrow> result \<times> call list" where
  "gemini_fallback e p =
     (case image_generateContent e p of
        GeminiThrows err \<Rightarrow> (catch_block p err, [GeminiCall p])
      | GeminiResult resp \<Rightarrow>
          (let no_candidates =
                 Responded (NextResponse_json
                   [(''status'', str ''error''),
                    (''message'', str ''No image candidates found''),
                    (''prompt'', val p),
                    (''geminiResponse'', Some (RGemini resp))] 500);
               no_image_part =
                 Responded (NextResponse_json
                   [(''status'', str ''error''),
                    (''message'', str ''No image part found in Gemini response''),
                    (''prompt'', val p),
                    (''geminiResponse'', Some (RGemini resp))] 500)
           in case candidates resp of
                None \<Rightarrow> (no_candidates, [GeminiCall p])
              | Some [] \<Rightarrow> (no_candidates, [GeminiCall p])
              | Some (c # cs) \<Rightarrow>
                  (let imagePart = find is_image_part (content_parts c);
                       textPart = find is_text_part (content_parts c)
                   in case imagePart of
                        None \<Rightarrow> (no_image_part, [GeminiCall p])
                      | Some ip \<Rightarrow>
                          (case part_inlineData ip of
                             None \<Rightarrow> (no_image_part, [GeminiCall p])
                           | Some inlineData \<Rightarrow>
                               (let caption = (case textPart of None \<Rightarrow> p
                                               | Some t \<Rightarrow> map_option JStr (part_text t));
                                    (r, cs') = upload_generated e p
                                                 (Some (JStr (blob_data inlineData)))
                                                 (blob_mimeType inlineData) caption
                                in (r, GeminiCall p # cs'))))))"

text \<open>Image generation (lines 271-407): the keys in order, then the image model.\<close>

definition generate_with_fallback :: "env \<Rightarrow> jsval \<Rightarrow> result \<times> call list" where
  "generate_with_fallback e p =
     (let (imageBase64, calls) = try_keys e p 0 (stability_keys e)
      in if \<not> truthy imageBase64 then
           (let (r, cs) = gemini_fallback e p in (r, calls @ cs))
         else
           (let (r, cs) = upload_generated e p imageBase64 ''image/png'' p
            in (r, calls @ cs)))"

definition handle_fields_stability :: "env \<Rightarrow> request_fields \<Rightarrow> result \<times> call list" where
  "handle_fields_stability e f =
     (if \<not> strict_eq_env (sharedSecret f) (SHARED_SECRET e) then (Responded unauthorized, [])
      else generate_with_fallback e (prompt f))"

text \<open>\<open>POST\<close> of this version (lines 252-422); its \<^verbatim>\<open>catch\<close> block is the one above.\<close>

definition POST_stability :: "env \<Rightarrow> request_body \<Rightarrow> result \<times> call list" where
  "POST_stability e req =
     (case req of
        InvalidJson msg \<Rightarrow> (catch_block (Some (JStr [])) (builtin_error msg), [])
      | JsonBody JNull \<Rightarrow>
          (catch_block (Some (JStr [])) (builtin_error (null_destructure_message e)), [])
      | JsonBody v \<Rightarrow> handle_fields_stability e (destructure v))"

section \<open>Observations\<close>

text \<open>The value of the variable \<^verbatim>\<open>requestPrompt\<close> when the handler answers: the initial
  empty string while the body is not destructured (lines 28 and 31), the body's \<^verbatim>\<open>prompt\<close>
  afterwards (line 33).\<close>

definition requestPrompt :: "request_body \<Rightarrow> jsval" where
  "requestPrompt req =
     (case req of
        InvalidJson msg \<Rightarrow> Some (JStr [])
      | JsonBody JNull \<Rightarrow> Some (JStr [])
      | JsonBody v \<Rightarrow> get_prop v ''prompt'')"

text \<open>A top-level field of the response, if there is a response and it has the field.\<close>

definition response_field :: "string \<Rightarrow> result \<Rightarrow> rvalue option" where
  "response_field k res =
     (case res of Responded r \<Rightarrow> map_of (body r) k | Rejected \<Rightarrow> None)"

text \<open>The \<^verbatim>\<open>public_id\<close> values passed to the uploader, in order.\<close>

definition public_ids :: "call list \<Rightarrow> string list" where
  "public_ids cs =
     concat (map (\<lambda>c. case c of UploadCall payload folder public_id \<Rightarrow> [public_id]
                        | _ \<Rightarrow> []) cs)"

text \<open>Two requests handled one after the other by one deployment: each call of the handler
  reads the clock once, at its upload; the first reads \<open>t1\<close>, the second, later, reads
  \<open>t2\<close>.\<close>

definition two_requests ::
  "(env \<Rightarrow> request_body \<Rightarrow> result \<times> call list) \<Rightarrow> env \<Rightarrow>
   nat \<Rightarrow> request_body \<Rightarrow> nat \<Rightarrow> request_body \<Rightarrow>
   (result \<times> call list) \<times> (result \<times> call list)" where
  "two_requests handler e t1 req1 t2 req2 =
     (handler (e\<lparr>Date_now := t1\<rparr>) req1, handler (e\<lparr>Date_now := t2\<rparr>) req2)"

section \<open>Example environments and requests\<close>

text \<open>A deployment with two Stability keys. The first Stability attempt gets an ok response
  whose JSON has no image; a second attempt would get an image. The moderation model answers
  \<^verbatim>\<open>SAFE\<close>, the image model returns a caption and a PNG, the upload succeeds.\<close>

definition example_env :: env where
  "example_env =
     \<lparr>SHARED_SECRET = Some ''s3cret'', STABILITY_KEYS = Some ''k1, k2'', STABILITY_KEY = None,
      null_destructure_message = ''Cannot destructure property of null'',
      moderation_generateContent = (\<lambda>p. ModerationResult ''SAFE'' None),
      stability_fetch = (\<lambda>i key p.
        if i = 0 then FetchResolves \<lparr>res_status = 200, res_body = Json (JObj [])\<rparr>
        else FetchResolves
               \<lparr>res_status = 200, res_body = Json (JObj [(''image'', JStr ''QUJD'')])\<rparr>),
      image_generateContent = (\<lambda>p. GeminiResult
        \<lparr>candidates = Some [\<lparr>content_parts =
            [\<lparr>part_text = Some ''a red fox'', part_inlineData = None\<rparr>,
             \<lparr>part_text = None,
                part_inlineData =
                  Some \<lparr>blob_mimeType = ''image/png'', blob_data = ''R0VN''\<rparr>\<rparr>]\<rparr>],
           promptFeedback = None\<rparr>),
      cloudinary_upload =
        (\<lambda>payload folder public_id. UploadResult ''https://res.cloudinary.com/demo/fox.png''),
      Date_now = 1700000000000\<rparr>"

definition example_request :: "string \<Rightarrow> string \<Rightarrow> request_body" where
  "example_request uid secret =
     JsonBody (JObj [(''prompt'', JStr ''a fox''), (''chatId'', JNum ''7''),
                     (''userId'', JStr uid), (''sharedSecret'', JStr secret)])"

text \<open>The same deployment with no working provider: the first Stability attempt gets status
  500, the second an ok response without an image, and the image model returns no
  candidate.\<close>

definition exhausted_env :: env where
  "exhausted_env =
     example_env
       \<lparr>stability_fetch := (\<lambda>i key p.
          if i = 0 then FetchResolves \<lparr>res_status = 500, res_body = NotJson\<rparr>
          else FetchResolves \<lparr>res_status = 200, res_body = Json (JObj [])\<rparr>),
        image_generateContent :=
          (\<lambda>p. GeminiResult \<lparr>candidates = Some [], promptFeedback = None\<rparr>)\<rparr>"

section \<open>Basic facts\<close>

lemma strict_eq_env_iff: "strict_eq_env a b \<longleftrightarrow> a = map_option JStr b"
proof (cases a)
  case None
  then show ?thesis by (cases b) auto
next
  case (Some j)
  then show ?thesis by (cases j; cases b) auto
qed

lemma POST_decoded:
  "v \<noteq> JNull \<Longrightarrow> POST e (JsonBody v) = handle_fields e (destructure v)"
  by (cases v) (simp_all add: POST_def)

lemma POST_stability_decoded:
  "v \<noteq> JNull \<Longrightarrow>
     POST_stability e (JsonBody v) = handle_fields_stability e (destructure v)"
  by (cases v) (simp_all add: POST_stability_def)

lemma json_object_Cons:
  "json_object ((k, v) # kvs) =
     (case v of None \<Rightarrow> json_object kvs | Some x \<Rightarrow> (k, x) # json_object kvs)"
  by (cases v) simp_all

lemmas response_defs = NextResponse_json_def str_def val_def unauthorized_def

lemmas string_defs =
  trim_def is_ws_def toUpperCase_def to_upper_def startsWith_def substring_def

lemmas stability_defs = generateWithStability_def extract_base64_def or_else_def res_ok_def

lemma example_keys: "stability_keys example_env = [''k1'', ''k2'']"
  by (simp add: example_env_def stability_keys_def trim_def is_ws_def)

lemma exhausted_keys: "stability_keys exhausted_env = [''k1'', ''k2'']"
  by (simp add: exhausted_env_def example_env_def stability_keys_def trim_def is_ws_def)

text \<open>The decimal rendering determines the number.\<close>

lemma digit_val_digit: "d < 10 \<Longrightarrow> digit_val (digit d) = d"
proof -
  assume "d < 10"
  then have "d \<in> {0, 1, 2, 3, 4, 5, 6, 7, 8, 9}" by auto
  then show ?thesis by (auto simp: digit_def digit_val_def)
qed

lemma read_nat_snoc: "read_nat (s @ [c]) = 10 * read_nat s + digit_val c"
  by (simp add: read_nat_def)

lemma read_nat_show_nat: "read_nat (show_nat n) = n"
proof (induction n rule: show_nat.induct)
  case (1 n)
  show ?case
  proof (cases "n < 10")
    case True
    then show ?thesis
      by (subst show_nat.simps) (simp add: read_nat_def digit_val_digit)
  next
    case False
    then have "read_nat (show_nat (n div 10)) = n div 10" using 1 by simp
    with False show ?thesis
      by (subst show_nat.simps) (simp add: read_nat_snoc digit_val_digit)
  qed
qed

lemma show_nat_inj: "show_nat m = show_nat n \<longleftrightarrow> m = n"
  by (metis read_nat_show_nat)

lemma example_clock: "show_nat 1700000000000 = ''1700000000000''"
  by (simp add: show_nat.simps digit_def)

text \<open>The handler of \<^verbatim>\<open>route.ts\<close> on the example request, at any clock reading.\<close>

lemma example_run:
  "POST (example_env\<lparr>Date_now := n\<rparr>) (example_request uid ''s3cret'') =
     (Responded \<lparr>status_code = 200,
        body = [(''status'', RJson (JStr ''success'')),
                (''imageUrl'', RJson (JStr ''https://res.cloudinary.com/demo/fox.png'')),
                (''message'', RJson (JStr ''a red fox'')),
                (''prompt'', RJson (JStr ''a fox'')),
                (''generatedImage'', RObject
                   [(''mimeType'', RJson (JStr ''image/png'')),
                    (''caption'', RJson (JStr ''a red fox'')),
                    (''imageUrl'', RJson (JStr ''https://res.cloudinary.com/demo/fox.png''))]),
                (''geminiResponse'', RObject
                   [(''candidates'', RCandidates [\<lparr>content_parts =
                       [\<lparr>part_text = Some ''a red fox'', part_inlineData = None\<rparr>,
                        \<lparr>part_text = None,
                           part_inlineData =
                             Some \<lparr>blob_mimeType = ''image/png'',
                                     blob_data = ''R0VN''\<rparr>\<rparr>]\<rparr>])])]\<rparr>,
      [ModerationCall (Some (JStr ''a fox'')), GeminiCall (Some (JStr ''a fox'')),
       UploadCall ''data:image/png;base64,R0VN'' ''gemini-telegram-images''
         (''gemini-gen-'' @ show_nat n)])"
  by (simp add: POST_def example_request_def example_env_def handle_fields_def destructure_def
        moderate_and_generate_def generate_image_def upload_and_respond_def
        is_image_part_def is_text_part_def string_defs response_defs Let_def)

section \<open>Authorization\<close>

text \<open>
  C1. A request whose body decodes and whose \<^verbatim>\<open>sharedSecret\<close> is not the configured
  \<^verbatim>\<open>SHARED_SECRET\<close> (an absent secret equals only an unset variable) gets exactly the body
  \<^verbatim>\<open>{"error": "Unauthorized request"}\<close> with status 401, and no external call is made: no
  moderation, no image generation, no upload. This holds for the handler of \<^verbatim>\<open>route.ts\<close>
  and for the version with the Stability chain.
\<close>

theorem unauthorized_short_circuit:
  assumes "v \<noteq> JNull"
    and "get_prop v ''sharedSecret'' \<noteq> map_option JStr (SHARED_SECRET e)"
  shows "POST e (JsonBody v) =
           (Responded \<lparr>status_code = 401,
                        body = [(''error'', RJson (JStr ''Unauthorized request''))]\<rparr>, [])
       \<and> POST_stability e (JsonBody v) =
           (Responded \<lparr>status_code = 401,
                        body = [(''error'', RJson (JStr ''Unauthorized request''))]\<rparr>, [])"
  using assms
  by (cases v)
     (simp_all add: POST_def POST_stability_def handle_fields_def handle_fields_stability_def
        destructure_def strict_eq_env_iff response_defs)

theorem unauthorized_short_circuit_witness:
  "JObj [(''prompt'', JStr ''a fox''), (''sharedSecret'', JStr ''guess'')] \<noteq> JNull
   \<and> get_prop (JObj [(''prompt'', JStr ''a fox''), (''sharedSecret'', JStr ''guess'')])
         ''sharedSecret''
       \<noteq> map_option JStr (SHARED_SECRET example_env)
   \<and> POST example_env
        (JsonBody (JObj [(''prompt'', JStr ''a fox''), (''sharedSecret'', JStr ''guess'')])) =
           (Responded \<lparr>status_code = 401,
                        body = [(''error'', RJson (JStr ''Unauthorized request''))]\<rparr>, [])"
  using unauthorized_short_circuit
    [of "JObj [(''prompt'', JStr ''a fox''), (''sharedSecret'', JStr ''guess'')]" example_env]
  by (simp add: example_env_def)

section \<open>Moderation\<close>

text \<open>After \<^verbatim>\<open>substring(5)\<close> the sixth character of the text, the \<^verbatim>\<open>E\<close> or \<^verbatim>\<open>e\<close> of the
  token, is still there: the reason is never empty and the default message is never used.\<close>

lemma to_upper_not_ws: "to_upper c = CHR ''E'' \<Longrightarrow> \<not> is_ws c"
  by (auto simp: is_ws_def to_upper_def)

lemma trim_Cons_not_Nil: "\<not> is_ws c \<Longrightarrow> trim (c # s) \<noteq> []"
  by (auto simp: trim_def dropWhile_eq_Nil_conv)

lemma unsafe_reason_not_empty:
  assumes "startsWith (toUpperCase s) ''UNSAFE''"
  shows "trim (substring s 5) \<noteq> []"
proof -
  from assms have t: "take (length ''UNSAFE'') (map to_upper s) = ''UNSAFE''"
    unfolding startsWith_def toUpperCase_def .
  have "length (take (length ''UNSAFE'') (map to_upper s)) = length ''UNSAFE''"
    by (simp only: t)
  then have len: "6 \<le> length s" by simp
  then have "5 < length s" by simp
  then have d: "drop 5 s = s ! 5 # drop (Suc 5) s"
    by (rule Cons_nth_drop_Suc [symmetric])
  have "take (length ''UNSAFE'') (map to_upper s) ! 5 = ''UNSAFE'' ! 5"
    by (simp only: t)
  with len have "to_upper (s ! 5) = CHR ''E''" by simp
  with d show ?thesis
    by (simp add: substring_def trim_Cons_not_Nil to_upper_not_ws)
qed

text \<open>What does hold for every moderation text that begins with the token: status 200,
  \<^verbatim>\<open>moderated\<close>, a message that is not empty, the prompt echoed, and the moderation call as
  the only external call.\<close>

lemma moderated_response:
  assumes "v \<noteq> JNull"
    and "get_prop v ''sharedSecret'' = map_option JStr (SHARED_SECRET e)"
    and "moderation_generateContent e (get_prop v ''prompt'') = ModerationResult t fb"
    and "startsWith (toUpperCase (trim t)) ''UNSAFE''"
  shows "POST e (JsonBody v) =
           (Responded \<lparr>status_code = 200,
              body = json_object
                [(''status'', Some (RJson (JStr ''moderated''))),
                 (''message'', Some (RJson (JStr (trim (substring (trim t) 5))))),
                 (''prompt'', map_option RJson (get_prop v ''prompt'')),
                 (''moderationFeedback'', map_option RJson fb)]\<rparr>,
            [ModerationCall (get_prop v ''prompt'')])
         \<and> trim (substring (trim t) 5) \<noteq> []"
proof -
  have auth: "strict_eq_env (get_prop v ''sharedSecret'') (SHARED_SECRET e)"
    using assms(2) by (simp add: strict_eq_env_iff)
  have ne: "trim (substring (trim t) 5) \<noteq> []"
    using assms(4) by (rule unsafe_reason_not_empty)
  show ?thesis
    using assms(1,3,4) auth ne
    by (cases v)
       (simp_all add: POST_def handle_fields_def destructure_def moderate_and_generate_def
          response_defs Let_def)
qed

text \<open>
  C2. The claim: a moderation text that begins with \<^verbatim>\<open>UNSAFE\<close> gives status 200,
  \<^verbatim>\<open>moderated\<close>, and as message the rest of the text after the token, or
  \<^verbatim>\<open>Content deemed unsafe.\<close> when the rest is empty. The handler cuts the text with
  \<^verbatim>\<open>substring(5)\<close>, one character short of the six of \<^verbatim>\<open>UNSAFE\<close>: for the moderation text
  \<^verbatim>\<open>UNSAFE violence\<close> the message is \<^verbatim>\<open>E violence\<close>, not \<^verbatim>\<open>violence\<close>. The rest
  of the claim holds there: status 200, \<^verbatim>\<open>moderated\<close>, and the moderation call is the only
  external call.
\<close>

theorem unsafe_reason_keeps_token_letter:
  "POST (example_env\<lparr>moderation_generateContent :=
                        (\<lambda>p. ModerationResult ''UNSAFE violence'' None)\<rparr>)
        (example_request ''u1'' ''s3cret'') =
     (Responded \<lparr>status_code = 200,
        body = [(''status'', RJson (JStr ''moderated'')),
                (''message'', RJson (JStr ''E violence'')),
                (''prompt'', RJson (JStr ''a fox''))]\<rparr>,
      [ModerationCall (Some (JStr ''a fox''))])"
  by (simp add: POST_def example_request_def example_env_def handle_fields_def destructure_def
        moderate_and_generate_def string_defs response_defs)

section \<open>The provider chain\<close>

text \<open>The shapes of a failed attempt that \<open>generateWithStability\<close> throws.\<close>

lemma thrown_shapes:
  "stability_fetch e i key p = FetchRejects \<Longrightarrow>
     generateWithStability e i p key = Inl FetchFailed"
  "stability_fetch e i key p = FetchResolves res \<Longrightarrow> \<not> res_ok res \<Longrightarrow>
     generateWithStability e i p key = Inl (NotOk (res_status res))"
  "stability_fetch e i key p = FetchResolves res \<Longrightarrow> res_ok res \<Longrightarrow>
     res_body res = NotJson \<Longrightarrow>
     generateWithStability e i p key = Inl MalformedPayload"
  "stability_fetch e i key p = FetchResolves res \<Longrightarrow> res_ok res \<Longrightarrow>
     res_body res = Json JNull \<Longrightarrow>
     generateWithStability e i p key = Inl NullPayload"
  by (simp_all add: generateWithStability_def)

text \<open>The loop goes past every attempt that throws and stops at the first that returns.\<close>

lemma try_keys_first_return:
  assumes "n < length ks"
    and "\<forall>j<n. \<exists>err. generateWithStability e (i + j) p (ks ! j) = Inl err"
    and "generateWithStability e (i + n) p (ks ! n) = Inr r"
  shows "try_keys e p i ks = (fst r, map (\<lambda>k. StabilityCall k p) (take (Suc n) ks))"
  using assms
proof (induction ks arbitrary: i n)
  case Nil
  then show ?case by simp
next
  case (Cons key ks)
  show ?case
  proof (cases n)
    case 0
    with Cons.prems show ?thesis by simp
  next
    case (Suc m)
    from Cons.prems(2) Suc obtain err where thrown: "generateWithStability e i p key = Inl err"
      by fastforce
    have "m < length ks" using Cons.prems(1) Suc by simp
    moreover have "\<forall>j<m. \<exists>err. generateWithStability e (Suc i + j) p (ks ! j) = Inl err"
    proof (intro allI impI)
      fix j assume "j < m"
      then show "\<exists>err. generateWithStability e (Suc i + j) p (ks ! j) = Inl err"
        using Cons.prems(2)[rule_format, of "Suc j"] Suc by simp
    qed
    moreover have "generateWithStability e (Suc i + m) p (ks ! m) = Inr r"
      using Cons.prems(3) Suc by simp
    ultimately have "try_keys e p (Suc i) ks
        = (fst r, map (\<lambda>k. StabilityCall k p) (take (Suc m) ks))"
      by (rule Cons.IH)
    with thrown Suc show ?thesis by simp
  qed
qed

lemma try_keys_all_thrown:
  "\<forall>j<length ks. \<exists>err. generateWithStability e (i + j) p (ks ! j) = Inl err \<Longrightarrow>
     try_keys e p i ks = (None, map (\<lambda>k. StabilityCall k p) ks)"
proof (induction ks arbitrary: i)
  case Nil
  then show ?case by simp
next
  case (Cons key ks)
  from Cons.prems obtain err where thrown: "generateWithStability e i p key = Inl err"
    by fastforce
  have "\<forall>j<length ks. \<exists>err. generateWithStability e (Suc i + j) p (ks ! j) = Inl err"
  proof (intro allI impI)
    fix j assume "j < length ks"
    then show "\<exists>err. generateWithStability e (Suc i + j) p (ks ! j) = Inl err"
      using Cons.prems[rule_format, of "Suc j"] by simp
  qed
  then have "try_keys e p (Suc i) ks = (None, map (\<lambda>k. StabilityCall k p) ks)"
    by (rule Cons.IH)
  with thrown show ?case by simp
qed

text \<open>When the attempts before the one with key \<open>n\<close> throw and that one returns an image,
  the handler makes these attempts and no other, does not call the image model, and uploads
  the image of that attempt.\<close>

lemma rotation_on_thrown_failures:
  assumes "v \<noteq> JNull"
    and "get_prop v ''sharedSecret'' = map_option JStr (SHARED_SECRET e)"
    and "n < length (stability_keys e)"
    and "\<forall>j<n. \<exists>err.
           generateWithStability e j (get_prop v ''prompt'') (stability_keys e ! j) = Inl err"
    and "generateWithStability e n (get_prop v ''prompt'') (stability_keys e ! n) = Inr r"
    and "truthy (fst r)"
  shows "snd (POST_stability e (JsonBody v)) =
           map (\<lambda>k. StabilityCall k (get_prop v ''prompt'')) (take (Suc n) (stability_keys e))
           @ [UploadCall (''data:image/png;base64,'' @ template (fst r)) ''gemini-telegram-images''
                (''generated-'' @ show_nat (Date_now e))]"
proof -
  let ?p = "get_prop v ''prompt''"
  have auth: "strict_eq_env (get_prop v ''sharedSecret'') (SHARED_SECRET e)"
    using assms(2) by (simp add: strict_eq_env_iff)
  have loop: "try_keys e ?p 0 (stability_keys e)
      = (fst r, map (\<lambda>k. StabilityCall k ?p) (take (Suc n) (stability_keys e)))"
    using assms(3-5) by (intro try_keys_first_return) simp_all
  show ?thesis
    using assms(6) auth
    by (auto simp: POST_stability_decoded [OF assms(1)] handle_fields_stability_def
          destructure_def generate_with_fallback_def loop upload_generated_def Let_def
          split: upload_outcome.splits)
qed

text \<open>When no attempt gives an image, by throwing or by returning none, the loop leaves
  none.\<close>

lemma try_keys_all_fail:
  "(\<forall>j<length ks. \<forall>r. generateWithStability e (i + j) p (ks ! j) = Inr r
       \<longrightarrow> \<not> truthy (fst r))
   \<Longrightarrow> \<not> truthy (fst (try_keys e p i ks))"
proof (induction ks arbitrary: i)
  case Nil
  then show ?case by simp
next
  case (Cons key ks)
  show ?case
  proof (cases "generateWithStability e i p key")
    case (Inr r)
    with Cons.prems have "\<not> truthy (fst r)" by fastforce
    with Inr show ?thesis by simp
  next
    case (Inl err)
    have "\<forall>j<length ks. \<forall>r. generateWithStability e (Suc i + j) p (ks ! j) = Inr r
            \<longrightarrow> \<not> truthy (fst r)"
    proof (intro allI impI)
      fix j r
      assume "j < length ks" and "generateWithStability e (Suc i + j) p (ks ! j) = Inr r"
      then show "\<not> truthy (fst r)"
        using Cons.prems[rule_format, of "Suc j" r] by simp
    qed
    then have "\<not> truthy (fst (try_keys e p (Suc i) ks))" by (rule Cons.IH)
    with Inl show ?thesis by (simp add: case_prod_beta)
  qed
qed

text \<open>
  C3. The claim: when the attempts with credentials 1..N-1 fail and the one with credential N
  succeeds, N primary attempts are made, the image model is not called, and the response
  reflects the image of attempt N. With two keys, a first attempt that fails by an ok response
  without an image, and a second key that would return the image \<^verbatim>\<open>QUJD\<close>, the handler makes
  one Stability attempt, calls the image model, and uploads and answers with the image model's
  picture \<^verbatim>\<open>R0VN\<close>.
\<close>

theorem fallback_skips_working_key:
  "POST_stability example_env (example_request ''u1'' ''s3cret'') =
     (Responded \<lparr>status_code = 200,
        body = [(''status'', RJson (JStr ''success'')),
                (''imageUrl'', RJson (JStr ''https://res.cloudinary.com/demo/fox.png'')),
                (''message'', RJson (JStr ''a red fox'')),
                (''prompt'', RJson (JStr ''a fox'')),
                (''generatedImage'', RObject
                   [(''mimeType'', RJson (JStr ''image/png'')),
                    (''caption'', RJson (JStr ''a red fox'')),
                    (''imageUrl'', RJson (JStr ''https://res.cloudinary.com/demo/fox.png''))])]\<rparr>,
      [StabilityCall ''k1'' (Some (JStr ''a fox'')),
       GeminiCall (Some (JStr ''a fox'')),
       UploadCall ''data:image/png;base64,R0VN'' ''gemini-telegram-images''
         ''generated-1700000000000''])"
  by (simp add: POST_stability_def example_request_def handle_fields_stability_def destructure_def
        generate_with_fallback_def example_keys)
     (simp add: example_env_def stability_defs gemini_fallback_def upload_generated_def
        is_image_part_def is_text_part_def startsWith_def template_def response_defs
        show_nat.simps digit_def)

text \<open>
  C4. The claim: a non-success status, a malformed payload and a response without the image
  field each make the chain go on to the next candidate, the next credential first. A
  response without the image field does not throw: the loop takes the return for a success
  and breaks. With the keys \<^verbatim>\<open>k1\<close>, \<^verbatim>\<open>k2\<close> and a first response \<^verbatim>\<open>{}\<close>, the loop ends
  after the attempt with \<^verbatim>\<open>k1\<close> and leaves \<^verbatim>\<open>imageBase64\<close> undefined, although the attempt
  with \<^verbatim>\<open>k2\<close> would return an image.
\<close>

theorem missing_image_skips_remaining_keys:
  "try_keys example_env (Some (JStr ''a fox'')) 0 (stability_keys example_env) =
     (None, [StabilityCall ''k1'' (Some (JStr ''a fox''))])
   \<and> generateWithStability example_env 1 (Some (JStr ''a fox'')) ''k2'' =
     Inr (Some (JStr ''QUJD''), JObj [(''image'', JStr ''QUJD'')])"
  by (simp add: example_keys) (simp add: example_env_def stability_defs)

text \<open>
  C5. When the body decodes, the secret matches, no Stability attempt gives an image (each
  one throws or returns none) and the image model returns an absent or empty candidate list,
  the version with the Stability chain answers 500 with status \<^verbatim>\<open>error\<close> and no
  \<^verbatim>\<open>imageUrl\<close> field; so does the handler of \<^verbatim>\<open>route.ts\<close>, which has no primary provider,
  once the moderation has let the prompt through.
\<close>

theorem exhaustion_is_error:
  assumes "v \<noteq> JNull"
    and "get_prop v ''sharedSecret'' = map_option JStr (SHARED_SECRET e)"
    and "\<forall>i<length (stability_keys e). \<forall>r.
           generateWithStability e i (get_prop v ''prompt'') (stability_keys e ! i) = Inr r
             \<longrightarrow> \<not> truthy (fst r)"
    and "image_generateContent e (get_prop v ''prompt'') = GeminiResult resp"
    and "candidates resp = None \<or> candidates resp = Some []"
  shows "(\<exists>r cs. POST_stability e (JsonBody v) = (Responded r, cs)
            \<and> status_code r = 500
            \<and> map_of (body r) ''status'' = Some (RJson (JStr ''error''))
            \<and> map_of (body r) ''imageUrl'' = None)
       \<and> (\<forall>t fb. moderation_generateContent e (get_prop v ''prompt'') = ModerationResult t fb
              \<longrightarrow> \<not> startsWith (toUpperCase (trim t)) ''UNSAFE''
              \<longrightarrow> (\<exists>r cs. POST e (JsonBody v) = (Responded r, cs)
                     \<and> status_code r = 500
                     \<and> map_of (body r) ''status'' = Some (RJson (JStr ''error''))
                     \<and> map_of (body r) ''imageUrl'' = None))"
proof -
  let ?p = "get_prop v ''prompt''"
  have auth: "strict_eq_env (get_prop v ''sharedSecret'') (SHARED_SECRET e)"
    using assms(2) by (simp add: strict_eq_env_iff)
  have falsy: "\<not> truthy (fst (try_keys e ?p 0 (stability_keys e)))"
    using assms(3) by (intro try_keys_all_fail) simp
  have A: "\<exists>r cs. POST_stability e (JsonBody v) = (Responded r, cs)
            \<and> status_code r = 500
            \<and> map_of (body r) ''status'' = Some (RJson (JStr ''error''))
            \<and> map_of (body r) ''imageUrl'' = None"
    using assms(1,4,5) auth falsy
    by (cases v; cases ?p)
       (auto simp: POST_stability_def handle_fields_stability_def destructure_def
          generate_with_fallback_def gemini_fallback_def response_defs
          split: prod.splits)
  have B: "\<exists>r cs. POST e (JsonBody v) = (Responded r, cs)
                     \<and> status_code r = 500
                     \<and> map_of (body r) ''status'' = Some (RJson (JStr ''error''))
                     \<and> map_of (body r) ''imageUrl'' = None"
    if "moderation_generateContent e ?p = ModerationResult t fb"
      and "\<not> startsWith (toUpperCase (trim t)) ''UNSAFE''" for t fb
    using assms(1,4,5) auth that
    by (cases v; cases ?p)
       (auto simp: POST_def handle_fields_def destructure_def moderate_and_generate_def
          generate_image_def response_defs)
  from A B show ?thesis by blast
qed

theorem exhaustion_is_error_witness:
  "(\<exists>r cs. POST_stability exhausted_env (example_request ''u1'' ''s3cret'') = (Responded r, cs)
            \<and> status_code r = 500
            \<and> map_of (body r) ''status'' = Some (RJson (JStr ''error''))
            \<and> map_of (body r) ''imageUrl'' = None)
   \<and> (\<exists>r cs. POST exhausted_env (example_request ''u1'' ''s3cret'') = (Responded r, cs)
            \<and> status_code r = 500
            \<and> map_of (body r) ''status'' = Some (RJson (JStr ''error''))
            \<and> map_of (body r) ''imageUrl'' = None)"
proof -
  let ?v = "JObj [(''prompt'', JStr ''a fox''), (''chatId'', JNum ''7''),
                  (''userId'', JStr ''u1''), (''sharedSecret'', JStr ''s3cret'')]"
  let ?resp = "\<lparr>candidates = Some [], promptFeedback = None\<rparr>"
  have h1: "?v \<noteq> JNull" by simp
  have h2: "get_prop ?v ''sharedSecret'' = map_option JStr (SHARED_SECRET exhausted_env)"
    by (simp add: exhausted_env_def example_env_def)
  have h3: "\<forall>i<length (stability_keys exhausted_env). \<forall>r.
           generateWithStability exhausted_env i (get_prop ?v ''prompt'')
             (stability_keys exhausted_env ! i) = Inr r \<longrightarrow> \<not> truthy (fst r)"
    by (auto simp: exhausted_keys less_Suc_eq exhausted_env_def example_env_def stability_defs)
  have h4: "image_generateContent exhausted_env (get_prop ?v ''prompt'') = GeminiResult ?resp"
    by (simp add: exhausted_env_def example_env_def)
  have h5: "candidates ?resp = None \<or> candidates ?resp = Some []" by simp
  have m: "moderation_generateContent exhausted_env (get_prop ?v ''prompt'')
             = ModerationResult ''SAFE'' None"
    by (simp add: exhausted_env_def example_env_def)
  have s: "\<not> startsWith (toUpperCase (trim ''SAFE'')) ''UNSAFE''"
    by (simp add: string_defs)
  from exhaustion_is_error [OF h1 h2 h3 h4 h5] m s show ?thesis
    unfolding example_request_def by blast
qed

section \<open>The upload\<close>

text \<open>
  C6. When the request is authorized, the moderation lets the prompt through, and the image
  model's first candidate has an image part of type \<^verbatim>\<open>image/png\<close> with data \<open>d\<close> and the
  caption \<^verbatim>\<open>a red fox\<close> (its first non-empty text part, or the prompt when it has none), the
  uploader is called exactly once, after the moderation and the generation call, with the
  payload \<^verbatim>\<open>data:image/png;base64,\<close> followed by \<open>d\<close>; and when the upload returns a
  non-empty URL the response is the success response, whose \<^verbatim>\<open>generatedImage.caption\<close> is
  \<^verbatim>\<open>a red fox\<close>.
\<close>

theorem upload_payload_and_caption:
  assumes "v \<noteq> JNull"
    and "get_prop v ''sharedSecret'' = map_option JStr (SHARED_SECRET e)"
    and "moderation_generateContent e (get_prop v ''prompt'') = ModerationResult t fb"
    and "\<not> startsWith (toUpperCase (trim t)) ''UNSAFE''"
    and "image_generateContent e (get_prop v ''prompt'') = GeminiResult resp"
    and "candidates resp = Some (c # cs)"
    and "find is_image_part (content_parts c) = Some ip"
    and "part_inlineData ip = Some \<lparr>blob_mimeType = ''image/png'', blob_data = d\<rparr>"
    and "(\<exists>tp. find is_text_part (content_parts c) = Some tp \<and> part_text tp = Some ''a red fox'')
         \<or> (find is_text_part (content_parts c) = None
            \<and> get_prop v ''prompt'' = Some (JStr ''a red fox''))"
  shows "snd (POST e (JsonBody v)) =
           [ModerationCall (get_prop v ''prompt''), GeminiCall (get_prop v ''prompt''),
            UploadCall (''data:image/png;base64,'' @ d) ''gemini-telegram-images''
              (''gemini-gen-'' @ show_nat (Date_now e))]
       \<and> (\<forall>url. cloudinary_upload e (''data:image/png;base64,'' @ d) ''gemini-telegram-images''
                   (''gemini-gen-'' @ show_nat (Date_now e)) = UploadResult url
              \<longrightarrow> url \<noteq> []
              \<longrightarrow> (\<exists>r. fst (POST e (JsonBody v)) = Responded r
                     \<and> status_code r = 200
                     \<and> map_of (body r) ''status'' = Some (RJson (JStr ''success''))
                     \<and> map_of (body r) ''imageUrl'' = Some (RJson (JStr url))
                     \<and> map_of (body r) ''generatedImage'' =
                         Some (RObject [(''mimeType'', RJson (JStr ''image/png'')),
                                        (''caption'', RJson (JStr ''a red fox'')),
                                        (''imageUrl'', RJson (JStr url))])))"
proof -
  let ?p = "get_prop v ''prompt''"
  have auth: "strict_eq_env (get_prop v ''sharedSecret'') (SHARED_SECRET e)"
    using assms(2) by (simp add: strict_eq_env_iff)
  have post: "POST e (JsonBody v) =
      (let (r, cs') = upload_and_respond e ?p resp
                        \<lparr>blob_mimeType = ''image/png'', blob_data = d\<rparr>
                        (find is_text_part (content_parts c))
       in (r, ModerationCall ?p # GeminiCall ?p # cs'))"
    using assms(1,3-8) auth
    by (cases v)
       (simp_all add: POST_def handle_fields_def destructure_def moderate_and_generate_def
          generate_image_def case_prod_beta)
  have cap: "(case find is_text_part (content_parts c) of None \<Rightarrow> ?p
              | Some t \<Rightarrow> map_option JStr (part_text t)) = Some (JStr ''a red fox'')"
    using assms(9) by auto
  show ?thesis
    unfolding post
    by (cases "cloudinary_upload e (''data:image/png;base64,'' @ d) ''gemini-telegram-images''
                   (''gemini-gen-'' @ show_nat (Date_now e))")
       (simp_all add: upload_and_respond_def cap response_defs Let_def json_object_Cons
          split: option.splits)
qed

theorem upload_payload_and_caption_witness:
  "snd (POST example_env (example_request ''u1'' ''s3cret'')) =
     [ModerationCall (Some (JStr ''a fox'')), GeminiCall (Some (JStr ''a fox'')),
      UploadCall ''data:image/png;base64,R0VN'' ''gemini-telegram-images''
        ''gemini-gen-1700000000000'']
   \<and> (\<exists>r. fst (POST example_env (example_request ''u1'' ''s3cret'')) = Responded r
          \<and> status_code r = 200
          \<and> map_of (body r) ''status'' = Some (RJson (JStr ''success''))
          \<and> map_of (body r) ''imageUrl''
              = Some (RJson (JStr ''https://res.cloudinary.com/demo/fox.png''))
          \<and> map_of (body r) ''generatedImage'' =
              Some (RObject [(''mimeType'', RJson (JStr ''image/png'')),
                             (''caption'', RJson (JStr ''a red fox'')),
                             (''imageUrl'',
                              RJson (JStr ''https://res.cloudinary.com/demo/fox.png''))]))"
proof -
  let ?v = "JObj [(''prompt'', JStr ''a fox''), (''chatId'', JNum ''7''),
                  (''userId'', JStr ''u1''), (''sharedSecret'', JStr ''s3cret'')]"
  let ?text = "\<lparr>part_text = Some ''a red fox'', part_inlineData = None\<rparr>"
  let ?image = "\<lparr>part_text = None,
                  part_inlineData =
                    Some \<lparr>blob_mimeType = ''image/png'', blob_data = ''R0VN''\<rparr>\<rparr>"
  let ?c = "\<lparr>content_parts = [?text, ?image]\<rparr>"
  let ?resp = "\<lparr>candidates = Some [?c], promptFeedback = None\<rparr>"
  have h1: "?v \<noteq> JNull" by simp
  have h2: "get_prop ?v ''sharedSecret'' = map_option JStr (SHARED_SECRET example_env)"
    by (simp add: example_env_def)
  have h3: "moderation_generateContent example_env (get_prop ?v ''prompt'')
              = ModerationResult ''SAFE'' None"
    by (simp add: example_env_def)
  have h4: "\<not> startsWith (toUpperCase (trim ''SAFE'')) ''UNSAFE''"
    by (simp add: string_defs)
  have h5: "image_generateContent example_env (get_prop ?v ''prompt'') = GeminiResult ?resp"
    by (simp add: example_env_def)
  have h6: "candidates ?resp = Some (?c # [])" by simp
  have h7: "find is_image_part (content_parts ?c) = Some ?image"
    by (simp add: is_image_part_def startsWith_def)
  have h8: "part_inlineData ?image
              = Some \<lparr>blob_mimeType = ''image/png'', blob_data = ''R0VN''\<rparr>"
    by simp
  have h9: "(\<exists>tp. find is_text_part (content_parts ?c) = Some tp
               \<and> part_text tp = Some ''a red fox'')
         \<or> (find is_text_part (content_parts ?c) = None
            \<and> get_prop ?v ''prompt'' = Some (JStr ''a red fox''))"
    by (simp add: is_text_part_def)
  have up: "cloudinary_upload example_env (''data:image/png;base64,'' @ ''R0VN'')
              ''gemini-telegram-images'' (''gemini-gen-'' @ show_nat (Date_now example_env))
            = UploadResult ''https://res.cloudinary.com/demo/fox.png''"
    by (simp add: example_env_def)
  have now: "show_nat (Date_now example_env) = ''1700000000000''"
    by (simp add: example_env_def show_nat.simps digit_def)
  from upload_payload_and_caption [OF h1 h2 h3 h4 h5 h6 h7 h8 h9] up show ?thesis
    unfolding example_request_def by (simp add: now)
qed

section \<open>The stored-image identifier\<close>

lemma catch_block_not_success:
  "catch_block p err = Responded r \<Longrightarrow>
     map_of (body r) ''status'' \<noteq> Some (RJson (JStr ''success''))"
  by (auto simp: catch_block_def response_defs Let_def split: response_text.splits)

lemma upload_and_respond_public_id:
  "upload_and_respond e p resp inl tp = (res, cs) \<Longrightarrow>
     public_ids cs = [''gemini-gen-'' @ show_nat (Date_now e)]"
  by (auto simp: upload_and_respond_def public_ids_def Let_def
        split: upload_outcome.splits if_splits)

lemma generate_image_public_id:
  "generate_image e p = (res, cs) \<Longrightarrow>
     response_field ''status'' res = Some (RJson (JStr ''success'')) \<Longrightarrow>
     public_ids cs = [''gemini-gen-'' @ show_nat (Date_now e)]"
  by (auto simp: generate_image_def response_field_def response_defs Let_def public_ids_def
        dest!: catch_block_not_success upload_and_respond_public_id
        split: gemini_outcome.splits option.splits list.splits prod.splits result.splits)

lemma moderate_and_generate_public_id:
  "moderate_and_generate e p = (res, cs) \<Longrightarrow>
     response_field ''status'' res = Some (RJson (JStr ''success'')) \<Longrightarrow>
     public_ids cs = [''gemini-gen-'' @ show_nat (Date_now e)]"
  by (auto simp: moderate_and_generate_def response_field_def response_defs Let_def public_ids_def
        dest!: catch_block_not_success generate_image_public_id
        split: moderation_outcome.splits if_splits prod.splits result.splits)

lemma POST_public_id:
  assumes "response_field ''status'' (fst (POST e req)) = Some (RJson (JStr ''success''))"
  shows "public_ids (snd (POST e req)) = [''gemini-gen-'' @ show_nat (Date_now e)]"
proof -
  obtain res cs where run: "POST e req = (res, cs)" by (cases "POST e req")
  with assms have ok: "response_field ''status'' res = Some (RJson (JStr ''success''))" by simp
  have "public_ids cs = [''gemini-gen-'' @ show_nat (Date_now e)]"
  proof (cases req)
    case (InvalidJson msg)
    with run ok show ?thesis
      by (auto simp: POST_def response_field_def dest!: catch_block_not_success
            split: result.splits)
  next
    case (JsonBody v)
    show ?thesis
    proof (cases "v = JNull")
      case True
      with JsonBody run ok show ?thesis
        by (auto simp: POST_def response_field_def dest!: catch_block_not_success
              split: result.splits)
    next
      case False
      with JsonBody run have "handle_fields e (destructure v) = (res, cs)"
        by (simp add: POST_decoded)
      with ok show ?thesis
        by (auto simp: handle_fields_def response_field_def response_defs
              dest!: moderate_and_generate_public_id split: if_splits)
    qed
  qed
  with run show ?thesis by simp
qed

text \<open>A successful request of \<^verbatim>\<open>route.ts\<close> passes the uploader exactly one
  \<^verbatim>\<open>public_id\<close>, \<^verbatim>\<open>gemini-gen-\<close> followed by the decimal reading of \<^verbatim>\<open>Date.now()\<close>; the
  prompt plays no part in it, and the identifiers of two successful requests are equal exactly
  when their two clock readings are.\<close>

lemma public_id_is_clock_reading:
  assumes "response_field ''status'' (fst (POST e1 r1)) = Some (RJson (JStr ''success''))"
    and "response_field ''status'' (fst (POST e2 r2)) = Some (RJson (JStr ''success''))"
  shows "public_ids (snd (POST e1 r1)) = [''gemini-gen-'' @ show_nat (Date_now e1)]
       \<and> public_ids (snd (POST e2 r2)) = [''gemini-gen-'' @ show_nat (Date_now e2)]
       \<and> (public_ids (snd (POST e1 r1)) = public_ids (snd (POST e2 r2))
            \<longleftrightarrow> Date_now e1 = Date_now e2)"
  using POST_public_id [OF assms(1)] POST_public_id [OF assms(2)]
  by (simp add: show_nat_inj)

text \<open>The version with the Stability chain on the example request, at any clock reading.\<close>

lemma example_run_stability:
  "POST_stability (example_env\<lparr>Date_now := n\<rparr>) (example_request uid ''s3cret'') =
     (Responded \<lparr>status_code = 200,
        body = [(''status'', RJson (JStr ''success'')),
                (''imageUrl'', RJson (JStr ''https://res.cloudinary.com/demo/fox.png'')),
                (''message'', RJson (JStr ''a red fox'')),
                (''prompt'', RJson (JStr ''a fox'')),
                (''generatedImage'', RObject
                   [(''mimeType'', RJson (JStr ''image/png'')),
                    (''caption'', RJson (JStr ''a red fox'')),
                    (''imageUrl'', RJson (JStr ''https://res.cloudinary.com/demo/fox.png''))])]\<rparr>,
      [StabilityCall ''k1'' (Some (JStr ''a fox'')),
       GeminiCall (Some (JStr ''a fox'')),
       UploadCall ''data:image/png;base64,R0VN'' ''gemini-telegram-images''
         (''generated-'' @ show_nat n)])"
proof -
  have keys: "stability_keys (example_env\<lparr>Date_now := n\<rparr>) = [''k1'', ''k2'']"
    by (simp add: example_env_def stability_keys_def trim_def is_ws_def)
  show ?thesis
    by (simp add: POST_stability_def example_request_def handle_fields_stability_def
          destructure_def generate_with_fallback_def keys)
       (simp add: example_env_def stability_defs gemini_fallback_def upload_generated_def
          is_image_part_def is_text_part_def startsWith_def template_def response_defs Let_def)
qed

text \<open>
  C8. The claim: two sequential successful requests pass the uploader two distinct
  \<^verbatim>\<open>public_id\<close> values, even with identical prompts. The source names the upload by the
  millisecond clock alone (\<^verbatim>\<open>gemini-gen-${Date.now()}\<close>, commented as a unique public ID;
  \<^verbatim>\<open>generated-${Date.now()}\<close> in the version with the Stability chain). Two requests with the
  prompt \<^verbatim>\<open>a fox\<close>, handled one after the other, whose uploads both read the clock at
  1700000000000 both succeed and both pass the identifier \<^verbatim>\<open>gemini-gen-1700000000000\<close>
  (\<^verbatim>\<open>generated-1700000000000\<close> in the other version).
\<close>

theorem sequential_requests_share_public_id:
  "response_field ''status''
     (fst (fst (two_requests POST example_env
                  1700000000000 (example_request ''u1'' ''s3cret'')
                  1700000000000 (example_request ''u2'' ''s3cret''))))
     = Some (RJson (JStr ''success''))
   \<and> response_field ''status''
     (fst (snd (two_requests POST example_env
                  1700000000000 (example_request ''u1'' ''s3cret'')
                  1700000000000 (example_request ''u2'' ''s3cret''))))
     = Some (RJson (JStr ''success''))
   \<and> public_ids (snd (fst (two_requests POST example_env
                  1700000000000 (example_request ''u1'' ''s3cret'')
                  1700000000000 (example_request ''u2'' ''s3cret''))))
     = [''gemini-gen-1700000000000'']
   \<and> public_ids (snd (snd (two_requests POST example_env
                  1700000000000 (example_request ''u1'' ''s3cret'')
                  1700000000000 (example_request ''u2'' ''s3cret''))))
     = [''gemini-gen-1700000000000'']
   \<and> response_field ''status''
     (fst (fst (two_requests POST_stability example_env
                  1700000000000 (example_request ''u1'' ''s3cret'')
                  1700000000000 (example_request ''u2'' ''s3cret''))))
     = Some (RJson (JStr ''success''))
   \<and> response_field ''status''
     (fst (snd (two_requests POST_stability example_env
                  1700000000000 (example_request ''u1'' ''s3cret'')
                  1700000000000 (example_request ''u2'' ''s3cret''))))
     = Some (RJson (JStr ''success''))
   \<and> public_ids (snd (fst (two_requests POST_stability example_env
                  1700000000000 (example_request ''u1'' ''s3cret'')
                  1700000000000 (example_request ''u2'' ''s3cret''))))
     = [''generated-1700000000000'']
   \<and> public_ids (snd (snd (two_requests POST_stability example_env
                  1700000000000 (example_request ''u1'' ''s3cret'')
                  1700000000000 (example_request ''u2'' ''s3cret''))))
     = [''generated-1700000000000'']"
  by (simp add: two_requests_def example_run example_run_stability response_field_def
        public_ids_def example_clock)

section \<open>The prompt in the response\<close>

lemma catch_block_prompt:
  "catch_block p err = Responded r \<Longrightarrow>
     status_code r = 500 \<and> map_of (body r) ''prompt'' = map_option RJson p"
  by (auto simp: catch_block_def response_defs Let_def json_object_Cons
        split: response_text.splits option.splits)

lemma upload_and_respond_prompt:
  "upload_and_respond e p resp inl tp = (Responded r, cs) \<Longrightarrow>
     status_code r \<noteq> 401 \<and> map_of (body r) ''prompt'' = map_option RJson p"
  by (auto simp: upload_and_respond_def response_defs Let_def json_object_Cons
        split: upload_outcome.splits option.splits if_splits)

lemma generate_image_prompt:
  "generate_image e p = (Responded r, cs) \<Longrightarrow>
     status_code r \<noteq> 401 \<and> map_of (body r) ''prompt'' = map_option RJson p"
  by (auto simp: generate_image_def response_defs Let_def json_object_Cons
        dest!: catch_block_prompt upload_and_respond_prompt
        split: gemini_outcome.splits option.splits list.splits prod.splits)

lemma moderate_and_generate_prompt:
  "moderate_and_generate e p = (Responded r, cs) \<Longrightarrow>
     status_code r \<noteq> 401 \<and> map_of (body r) ''prompt'' = map_option RJson p"
  by (auto simp: moderate_and_generate_def response_defs Let_def json_object_Cons
        dest!: catch_block_prompt generate_image_prompt
        split: moderation_outcome.splits option.splits if_splits prod.splits)

lemma upload_generated_prompt:
  "upload_generated e p b m c = (Responded r, cs) \<Longrightarrow>
     status_code r \<noteq> 401 \<and> map_of (body r) ''prompt'' = map_option RJson p"
  by (auto simp: upload_generated_def response_defs Let_def json_object_Cons
        split: upload_outcome.splits option.splits if_splits)

lemma gemini_fallback_prompt:
  "gemini_fallback e p = (Responded r, cs) \<Longrightarrow>
     status_code r \<noteq> 401 \<and> map_of (body r) ''prompt'' = map_option RJson p"
  by (auto simp: gemini_fallback_def response_defs Let_def json_object_Cons
        dest!: catch_block_prompt upload_generated_prompt
        split: gemini_outcome.splits option.splits list.splits prod.splits)

lemma generate_with_fallback_prompt:
  "generate_with_fallback e p = (Responded r, cs) \<Longrightarrow>
     status_code r \<noteq> 401 \<and> map_of (body r) ''prompt'' = map_option RJson p"
  by (auto simp: generate_with_fallback_def Let_def
        dest!: gemini_fallback_prompt upload_generated_prompt
        split: prod.splits if_splits)

text \<open>
  C7, as the code has it. Every response of either version of the handler other than the 401
  authorization failure carries the handler's \<^verbatim>\<open>requestPrompt\<close> as its \<^verbatim>\<open>prompt\<close> field:
  the \<^verbatim>\<open>prompt\<close> of the body when the body was destructured (and no field when the body has
  no prompt), the empty string when reading the body failed.
\<close>

theorem prompt_echoed_unless_unauthorized:
  assumes "POST e req = (Responded r, cs) \<or> POST_stability e req = (Responded r, cs)"
    and "status_code r \<noteq> 401"
  shows "map_of (body r) ''prompt'' = map_option RJson (requestPrompt req)"
proof (cases req)
  case (InvalidJson msg)
  with assms(1) show ?thesis
    by (auto simp: POST_def POST_stability_def requestPrompt_def dest!: catch_block_prompt)
next
  case (JsonBody v)
  show ?thesis
  proof (cases "v = JNull")
    case True
    with JsonBody assms(1) show ?thesis
      by (auto simp: POST_def POST_stability_def requestPrompt_def dest!: catch_block_prompt)
  next
    case False
    then have rp: "requestPrompt req = get_prop v ''prompt''"
      using JsonBody by (cases v) (simp_all add: requestPrompt_def)
    from False JsonBody assms(1)
    have "handle_fields e (destructure v) = (Responded r, cs)
          \<or> handle_fields_stability e (destructure v) = (Responded r, cs)"
      by (simp add: POST_decoded POST_stability_decoded)
    with assms(2) show ?thesis
      unfolding rp
      by (auto simp: handle_fields_def handle_fields_stability_def destructure_def
            unauthorized_def NextResponse_json_def
            dest!: moderate_and_generate_prompt generate_with_fallback_prompt
            split: if_splits)
  qed
qed

theorem prompt_echoed_unless_unauthorized_witness:
  "POST exhausted_env (example_request ''u1'' ''s3cret'') =
     (Responded \<lparr>status_code = 500,
        body = [(''status'', RJson (JStr ''error'')),
                (''message'', RJson (JStr ''No image candidates found'')),
                (''prompt'', RJson (JStr ''a fox'')),
                (''geminiResponse'',
                 RGemini \<lparr>candidates = Some [], promptFeedback = None\<rparr>)]\<rparr>,
      [ModerationCall (Some (JStr ''a fox'')), GeminiCall (Some (JStr ''a fox''))])
   \<and> map_of [(''status'', RJson (JStr ''error'')),
              (''message'', RJson (JStr ''No image candidates found'')),
              (''prompt'', RJson (JStr ''a fox'')),
              (''geminiResponse'', RGemini \<lparr>candidates = Some [], promptFeedback = None\<rparr>)]
        ''prompt''
       = map_option RJson (requestPrompt (example_request ''u1'' ''s3cret''))"
proof -
  let ?r = "\<lparr>status_code = 500,
        body = [(''status'', RJson (JStr ''error'')),
                (''message'', RJson (JStr ''No image candidates found'')),
                (''prompt'', RJson (JStr ''a fox'')),
                (''geminiResponse'',
                 RGemini \<lparr>candidates = Some [], promptFeedback = None\<rparr>)]\<rparr>"
  let ?cs = "[ModerationCall (Some (JStr ''a fox'')), GeminiCall (Some (JStr ''a fox''))]"
  have run: "POST exhausted_env (example_request ''u1'' ''s3cret'') = (Responded ?r, ?cs)"
    by (simp add: POST_def example_request_def exhausted_env_def example_env_def handle_fields_def
          destructure_def moderate_and_generate_def generate_image_def string_defs response_defs)
  have st: "status_code ?r \<noteq> 401" by simp
  from prompt_echoed_unless_unauthorized [OF disjI1 [OF run] st] run show ?thesis by simp
qed

text \<open>As stated, for every response including the authorization failure, the property
  fails: the 401 response to a request with the prompt \<^verbatim>\<open>a fox\<close> and a wrong secret has the
  single field \<^verbatim>\<open>error\<close>.\<close>

theorem unauthorized_response_has_no_prompt:
  "POST example_env (example_request ''u1'' ''guess'') =
     (Responded \<lparr>status_code = 401,
                  body = [(''error'', RJson (JStr ''Unauthorized request''))]\<rparr>, [])
   \<and> map_of [(''error'', RJson (JStr ''Unauthorized request''))] ''prompt'' = None
   \<and> requestPrompt (example_request ''u1'' ''guess'') = Some (JStr ''a fox'')"
  by (simp add: POST_def example_request_def example_env_def handle_fields_def destructure_def
        requestPrompt_def response_defs)

section \<open>Undecodable bodies\<close>

text \<open>
  C9. A request whose body is not valid JSON makes \<^verbatim>\<open>req.json()\<close> throw inside the
  \<^verbatim>\<open>try\<close>, before the authorization check. The handler does not reject and does not answer
  401: it answers 500 with status \<^verbatim>\<open>error\<close>, the parser's message (or
  \<^verbatim>\<open>Internal server error\<close> when that is empty), the initial empty prompt and the details
  \<^verbatim>\<open>{}\<close>, whatever the caller's secret; no external call is made. The version with the
  Stability chain does the same.
\<close>

theorem invalid_json_reaches_error_shape:
  "POST e (InvalidJson msg) =
     (Responded \<lparr>status_code = 500,
        body = [(''status'', RJson (JStr ''error'')),
                (''message'', RJson (JStr (if msg \<noteq> [] then msg else ''Internal server error''))),
                (''prompt'', RJson (JStr [])),
                (''details'', RJson (JStr ''{}''))]\<rparr>, [])
   \<and> POST_stability e (InvalidJson msg) = POST e (InvalidJson msg)"
  by (simp add: POST_def POST_stability_def catch_block_def builtin_error_def response_defs)

section \<open>The user identifier\<close>

text \<open>
  C10. Two request bodies that agree on every property other than \<^verbatim>\<open>userId\<close> get, in the
  same environment (the same results of the moderation, generation and upload calls), the same
  response and make the same external calls: \<^verbatim>\<open>userId\<close> is destructured and never read.
  A body that is not an object has no \<^verbatim>\<open>userId\<close>. The same holds for the version with the
  Stability chain.
\<close>

theorem userId_not_read:
  assumes "\<forall>k. k \<noteq> ''userId'' \<longrightarrow> map_of kvs k = map_of kvs' k"
  shows "POST e (JsonBody (JObj kvs)) = POST e (JsonBody (JObj kvs'))
       \<and> POST_stability e (JsonBody (JObj kvs)) = POST_stability e (JsonBody (JObj kvs'))"
  using assms
  by (simp add: POST_def POST_stability_def handle_fields_def handle_fields_stability_def
        destructure_def)

theorem userId_not_read_witness:
  "POST example_env (JsonBody (JObj [(''prompt'', JStr ''a fox''), (''userId'', JStr ''alice''),
                                    (''sharedSecret'', JStr ''s3cret'')]))
   = POST example_env (JsonBody (JObj [(''prompt'', JStr ''a fox''), (''userId'', JStr ''bob''),
                                      (''sharedSecret'', JStr ''s3cret'')]))"
  using userId_not_read
    [of "[(''prompt'', JStr ''a fox''), (''userId'', JStr ''alice''),
          (''sharedSecret'', JStr ''s3cret'')]"
        "[(''prompt'', JStr ''a fox''), (''userId'', JStr ''bob''),
          (''sharedSecret'', JStr ''s3cret'')]" example_env]
  by simp

end
